theory Spec2Isabelle
  imports Complex_Main
begin

section \<open>Versioned serialization of the RunDescriber\<close>

text \<open>
  A shallow embedding of \<^verbatim>\<open>qcodes/dataset/descriptions/versioning/serialization.py\<close>:
  the module that converts RunDescriber objects of two versions to and from plain
  dictionaries, JSON and YAML. Every function of the module is a HOL function of the
  same name; an exception is a value \<open>Inl e\<close> of the result type.
\<close>

subsection \<open>Python values\<close>

text \<open>
  The dictionaries handled by the module come from \<^verbatim>\<open>json.loads\<close> and
  \<^verbatim>\<open>yaml.load\<close>, so their entries are dynamically typed. A mapping carries its
  runtime class: the source distinguishes the \<^verbatim>\<open>OrderedDict\<close> returned by the
  YAML parser from a plain \<^verbatim>\<open>dict\<close>. Its items are kept in insertion order; a
  well-formed mapping has no two equal keys. A finite float is represented by the
  rational number it denotes (Python compares floats with integers exactly).
\<close>

datatype mapping_class = Dict | OrderedDict

datatype non_finite = PosInf | NegInf | NaN

datatype pyval =
    PyNone
  | PyBool bool
  | PyInt int
  | PyFloat rat
  | PyFloatSpecial non_finite
  | PyStr string
  | PyList "pyval list"
  | PyTuple "pyval list"
  | PyMapping mapping_class "(pyval \<times> pyval) list"

text \<open>
  Exceptions. \<open>RuntimeError dct\<close> is the error raised by \<^verbatim>\<open>from_dict_to_native\<close>
  for an unknown version (its message shows \<^verbatim>\<open>dct\<close>); \<open>KeyError k\<close> is the error of
  a dictionary lookup with the missing key \<open>k\<close>; \<open>TypeError\<close> is the error of
  subscripting a value that is not a mapping with a string; \<open>Raised name\<close> is any
  other exception raised by a collaborator.
\<close>

datatype error = RuntimeError pyval | KeyError pyval | TypeError | Raised string

definition and_then :: "'e + 'a \<Rightarrow> ('a \<Rightarrow> 'e + 'b) \<Rightarrow> 'e + 'b" where
  "and_then r f = (case r of Inl e \<Rightarrow> Inl e | Inr x \<Rightarrow> f x)"

text \<open>\<^verbatim>\<open>x == n\<close> for an integer \<open>n\<close>: \<^verbatim>\<open>True == 1\<close> and \<^verbatim>\<open>0.0 == 0\<close> hold in Python.\<close>

fun py_eq_int :: "pyval \<Rightarrow> int \<Rightarrow> bool" where
  "py_eq_int (PyBool b) n = ((if b then 1 else 0) = n)"
| "py_eq_int (PyInt i) n = (i = n)"
| "py_eq_int (PyFloat q) n = (q = of_int n)"
| "py_eq_int _ n = False"

text \<open>\<^verbatim>\<open>x[key]\<close> for a string \<open>key\<close>. Only a string key is equal to a string.\<close>

fun py_getitem :: "pyval \<Rightarrow> string \<Rightarrow> error + pyval" where
  "py_getitem (PyMapping c items) key =
     (case map_of items (PyStr key) of
        None \<Rightarrow> Inl (KeyError (PyStr key))
      | Some v \<Rightarrow> Inr v)"
| "py_getitem _ key = Inl TypeError"

text \<open>\<^verbatim>\<open>type(x) is dict\<close>\<close>

fun is_plain_dict :: "pyval \<Rightarrow> bool" where
  "is_plain_dict (PyMapping c items) = (c = Dict)"
| "is_plain_dict _ = False"

text \<open>
  The same value with every mapping, at any depth, turned into a plain \<^verbatim>\<open>dict\<close>.
  Two values with the same image differ in the classes of their mappings only.
\<close>

primrec plain :: "pyval \<Rightarrow> pyval" where
  "plain PyNone = PyNone"
| "plain (PyBool b) = PyBool b"
| "plain (PyInt i) = PyInt i"
| "plain (PyFloat q) = PyFloat q"
| "plain (PyFloatSpecial s) = PyFloatSpecial s"
| "plain (PyStr s) = PyStr s"
| "plain (PyList xs) = PyList (map plain xs)"
| "plain (PyTuple xs) = PyTuple (map plain xs)"
| "plain (PyMapping c items) = PyMapping Dict (map (map_prod plain plain) items)"

text \<open>
  The content of a value: every mapping, at any depth, as a plain \<^verbatim>\<open>dict\<close> and
  every tuple as a list. It is what \<^verbatim>\<open>json.loads\<close> returns for the text that
  \<^verbatim>\<open>json.dumps\<close> writes for a value with string keys: JSON has one kind of
  object and one kind of array.
\<close>

primrec canonical :: "pyval \<Rightarrow> pyval" where
  "canonical PyNone = PyNone"
| "canonical (PyBool b) = PyBool b"
| "canonical (PyInt i) = PyInt i"
| "canonical (PyFloat q) = PyFloat q"
| "canonical (PyFloatSpecial s) = PyFloatSpecial s"
| "canonical (PyStr s) = PyStr s"
| "canonical (PyList xs) = PyList (map canonical xs)"
| "canonical (PyTuple xs) = PyList (map canonical xs)"
| "canonical (PyMapping c items) = PyMapping Dict (map (map_prod canonical canonical) items)"

text \<open>
  What the \<^verbatim>\<open>load\<close> of \<^verbatim>\<open>YAML()\<close> returns for the text that its
  \<^verbatim>\<open>dump\<close> writes for a value: a tuple is written as a sequence and read as a list,
  and every mapping, at any depth, is read as an ordered dictionary.
\<close>

primrec yaml_roundtrip :: "pyval \<Rightarrow> pyval" where
  "yaml_roundtrip PyNone = PyNone"
| "yaml_roundtrip (PyBool b) = PyBool b"
| "yaml_roundtrip (PyInt i) = PyInt i"
| "yaml_roundtrip (PyFloat q) = PyFloat q"
| "yaml_roundtrip (PyFloatSpecial s) = PyFloatSpecial s"
| "yaml_roundtrip (PyStr s) = PyStr s"
| "yaml_roundtrip (PyList xs) = PyList (map yaml_roundtrip xs)"
| "yaml_roundtrip (PyTuple xs) = PyList (map yaml_roundtrip xs)"
| "yaml_roundtrip (PyMapping c items) =
     PyMapping OrderedDict (map (map_prod yaml_roundtrip yaml_roundtrip) items)"

text \<open>No mapping inside the value, at any depth, is of another class than \<^verbatim>\<open>dict\<close>.\<close>

primrec only_plain_dicts :: "pyval \<Rightarrow> bool" where
  "only_plain_dicts PyNone = True"
| "only_plain_dicts (PyBool b) = True"
| "only_plain_dicts (PyInt i) = True"
| "only_plain_dicts (PyFloat q) = True"
| "only_plain_dicts (PyFloatSpecial s) = True"
| "only_plain_dicts (PyStr s) = True"
| "only_plain_dicts (PyList xs) = list_all only_plain_dicts xs"
| "only_plain_dicts (PyTuple xs) = list_all only_plain_dicts xs"
| "only_plain_dicts (PyMapping c items) =
     (c = Dict \<and> list_all (pred_prod only_plain_dicts only_plain_dicts) items)"

subsection \<open>The RunDescriber variants and the collaborators of the module\<close>

text \<open>
  \<^verbatim>\<open>SomeRunDescriber = Union[current.RunDescriber, v0.RunDescriber]\<close>. The two
  classes live in other modules; their contents are the type parameters.
\<close>

datatype ('a, 'b) SomeRunDescriber = V0_RunDescriber 'a | Current_RunDescriber 'b

text \<open>
  Modelled from the spec: the \<^verbatim>\<open>version\<close> attribute of the classes
  \<^verbatim>\<open>v0.RunDescriber\<close> and \<^verbatim>\<open>current.RunDescriber\<close>, which are not part of the
  module. Every variant exposes an integer version field equal to its own version tag.
\<close>

fun version :: "('a, 'b) SomeRunDescriber \<Rightarrow> int" where
  "version (V0_RunDescriber a) = 0"
| "version (Current_RunDescriber b) = 1"

text \<open>
  What the module imports and calls: the constructors \<^verbatim>\<open>_from_dict\<close> of the two
  classes, the method \<^verbatim>\<open>_to_dict\<close>, the converters \<^verbatim>\<open>v0_to_v1\<close> and
  \<^verbatim>\<open>v1_to_v0\<close>, \<^verbatim>\<open>json.dumps\<close>, \<^verbatim>\<open>json.loads\<close>, the \<^verbatim>\<open>dump\<close>
  and \<^verbatim>\<open>load\<close> of \<^verbatim>\<open>YAML()\<close>, and the builtin \<^verbatim>\<open>dict\<close> applied to a
  value that is not a mapping (an iterable of pairs, or an error). Each may raise.
\<close>

record ('a, 'b) collaborators =
  v0_from_dict :: "pyval \<Rightarrow> error + 'a"
  current_from_dict :: "pyval \<Rightarrow> error + 'b"
  to_dict :: "('a, 'b) SomeRunDescriber \<Rightarrow> error + pyval"
  v0_to_v1 :: "('a, 'b) SomeRunDescriber \<Rightarrow> error + ('a, 'b) SomeRunDescriber"
  v1_to_v0 :: "('a, 'b) SomeRunDescriber \<Rightarrow> error + ('a, 'b) SomeRunDescriber"
  json_dumps :: "pyval \<Rightarrow> error + string"
  json_loads :: "string \<Rightarrow> error + pyval"
  yaml_dump :: "pyval \<Rightarrow> error + string"
  yaml_load :: "string \<Rightarrow> error + pyval"
  dict_of_iterable :: "pyval \<Rightarrow> error + (pyval \<times> pyval) list"

text \<open>
  The builtin \<^verbatim>\<open>dict(x)\<close>: a new plain dictionary with the items of the mapping
  \<open>x\<close>, whatever its class; nested values are not touched.
\<close>

fun py_dict :: "('a, 'b) collaborators \<Rightarrow> pyval \<Rightarrow> error + pyval" where
  "py_dict E (PyMapping c items) = Inr (PyMapping Dict items)"
| "py_dict E x = and_then (dict_of_iterable E x) (\<lambda>items. Inr (PyMapping Dict items))"

subsection \<open>The module\<close>

definition CURRENT_VERSION :: int where
  "CURRENT_VERSION = 1"

definition STORAGE_VERSION :: int where
  "STORAGE_VERSION = 0"

text \<open>The table \<^verbatim>\<open>_converters\<close>, with keys \<^verbatim>\<open>(from_version, to_version)\<close>.\<close>

definition converters ::
  "('a, 'b) collaborators \<Rightarrow>
   (int \<times> int) \<rightharpoonup> (('a, 'b) SomeRunDescriber \<Rightarrow> error + ('a, 'b) SomeRunDescriber)" where
  "converters E = map_of
     [((0, 0), \<lambda>x. Inr x),
      ((0, 1), v0_to_v1 E),
      ((1, 0), v1_to_v0 E),
      ((1, 1), \<lambda>x. Inr x)]"

text \<open>\<^verbatim>\<open>_converters[key]\<close>: a missing key raises \<^verbatim>\<open>KeyError(key)\<close>.\<close>

definition converters_getitem ::
  "('a, 'b) collaborators \<Rightarrow> int \<times> int \<Rightarrow>
   error + (('a, 'b) SomeRunDescriber \<Rightarrow> error + ('a, 'b) SomeRunDescriber)" where
  "converters_getitem E key =
     (case converters E key of
        None \<Rightarrow> Inl (KeyError (PyTuple [PyInt (fst key), PyInt (snd key)]))
      | Some f \<Rightarrow> Inr f)"

definition from_dict_to_native ::
  "('a, 'b) collaborators \<Rightarrow> pyval \<Rightarrow> error + ('a, 'b) SomeRunDescriber" where
  "from_dict_to_native E dct =
     and_then (py_getitem dct ''version'') (\<lambda>dct_version.
       if py_eq_int dct_version 0 then
         and_then (v0_from_dict E dct) (\<lambda>a. Inr (V0_RunDescriber a))
       else if py_eq_int dct_version 1 then
         and_then (current_from_dict E dct) (\<lambda>b. Inr (Current_RunDescriber b))
       else Inl (RuntimeError dct))"

definition from_dict_to_current ::
  "('a, 'b) collaborators \<Rightarrow> pyval \<Rightarrow> error + ('a, 'b) SomeRunDescriber" where
  "from_dict_to_current E dct =
     and_then (from_dict_to_native E dct) (\<lambda>desc.
       and_then (converters_getitem E (version desc, CURRENT_VERSION)) (\<lambda>f. f desc))"

definition to_dict_as_version ::
  "('a, 'b) collaborators \<Rightarrow> ('a, 'b) SomeRunDescriber \<Rightarrow> int \<Rightarrow> error + pyval" where
  "to_dict_as_version E desc v =
     and_then (converters_getitem E (version desc, v)) (\<lambda>f.
       and_then (f desc) (to_dict E))"

definition to_dict_for_storage ::
  "('a, 'b) collaborators \<Rightarrow> ('a, 'b) SomeRunDescriber \<Rightarrow> error + pyval" where
  "to_dict_for_storage E desc = to_dict_as_version E desc STORAGE_VERSION"

definition to_json_for_storage ::
  "('a, 'b) collaborators \<Rightarrow> ('a, 'b) SomeRunDescriber \<Rightarrow> error + string" where
  "to_json_for_storage E desc = and_then (to_dict_for_storage E desc) (json_dumps E)"

definition to_json_as_version ::
  "('a, 'b) collaborators \<Rightarrow> ('a, 'b) SomeRunDescriber \<Rightarrow> int \<Rightarrow> error + string" where
  "to_json_as_version E desc v = and_then (to_dict_as_version E desc v) (json_dumps E)"

definition from_json_to_current ::
  "('a, 'b) collaborators \<Rightarrow> string \<Rightarrow> error + ('a, 'b) SomeRunDescriber" where
  "from_json_to_current E json_str = and_then (json_loads E json_str) (from_dict_to_current E)"

definition from_json_to_native ::
  "('a, 'b) collaborators \<Rightarrow> string \<Rightarrow> error + ('a, 'b) SomeRunDescriber" where
  "from_json_to_native E json_str = and_then (json_loads E json_str) (from_dict_to_native E)"

definition to_yaml_for_storage ::
  "('a, 'b) collaborators \<Rightarrow> ('a, 'b) SomeRunDescriber \<Rightarrow> error + string" where
  "to_yaml_for_storage E desc = and_then (to_dict_for_storage E desc) (yaml_dump E)"

definition from_yaml_to_current ::
  "('a, 'b) collaborators \<Rightarrow> string \<Rightarrow> error + ('a, 'b) SomeRunDescriber" where
  "from_yaml_to_current E yaml_str =
     and_then (yaml_load E yaml_str) (\<lambda>loaded.
       and_then (py_dict E loaded) (\<lambda>ser. from_dict_to_current E ser))"

subsection \<open>The document variants\<close>

text \<open>
  Modelled from the spec: the two document variants, the classes
  \<^verbatim>\<open>v0.RunDescriber\<close> and \<^verbatim>\<open>current.RunDescriber\<close> with their methods
  \<^verbatim>\<open>_to_dict\<close> and \<^verbatim>\<open>_from_dict\<close>, which are not part of the module. A
  document of either variant is its own fields, already serialized to primitive values.
  Its mapping representation is a plain dictionary with the entry \<^verbatim>\<open>version\<close>, equal
  to the version tag of the variant, followed by the fields. The constructor of a variant
  takes the fields from a mapping, that is every entry but \<^verbatim>\<open>version\<close>, so that it
  rebuilds a document from the document's own mapping. A document is valid when its
  mapping is a well-formed dictionary: no two fields have the same name and none is
  named \<^verbatim>\<open>version\<close>.
\<close>

type_synonym fields = "(pyval \<times> pyval) list"

fun fields_of :: "(fields, fields) SomeRunDescriber \<Rightarrow> fields" where
  "fields_of (V0_RunDescriber fs) = fs"
| "fields_of (Current_RunDescriber fs) = fs"

definition variant_to_dict :: "(fields, fields) SomeRunDescriber \<Rightarrow> error + pyval" where
  "variant_to_dict doc =
     Inr (PyMapping Dict ((PyStr ''version'', PyInt (version doc)) # fields_of doc))"

fun variant_from_dict :: "pyval \<Rightarrow> error + fields" where
  "variant_from_dict (PyMapping c items) =
     Inr (filter (\<lambda>(k, v). k \<noteq> PyStr ''version'') items)"
| "variant_from_dict _ = Inl TypeError"

definition valid_document :: "(fields, fields) SomeRunDescriber \<Rightarrow> bool" where
  "valid_document doc = distinct (PyStr ''version'' # map fst (fields_of doc))"

text \<open>The collaborators \<open>E\<close> with these two variants in place of its own.\<close>

definition with_spec_variants ::
  "(fields, fields) collaborators \<Rightarrow> (fields, fields) collaborators" where
  "with_spec_variants E =
     E\<lparr> v0_from_dict := variant_from_dict,
        current_from_dict := variant_from_dict,
        to_dict := variant_to_dict \<rparr>"

subsection \<open>A reference instance of the collaborators\<close>

text \<open>
  A small instance used to run the module on concrete inputs. A RunDescriber of either
  version holds its interdependencies as a plain value; its dictionary has the keys
  \<^verbatim>\<open>version\<close> and \<^verbatim>\<open>interdependencies\<close>. The text codecs know one document:
  JSON parsing returns plain dictionaries, YAML parsing returns ordered dictionaries at
  every depth.
\<close>

definition example_interdeps :: pyval where
  "example_interdeps = PyMapping Dict [(PyStr ''paramspecs'', PyList [])]"

definition example_v0_dict :: pyval where
  "example_v0_dict =
     PyMapping Dict [(PyStr ''version'', PyInt 0), (PyStr ''interdependencies'', example_interdeps)]"

definition example_yaml_loaded :: pyval where
  "example_yaml_loaded =
     PyMapping OrderedDict
       [(PyStr ''version'', PyInt 0),
        (PyStr ''interdependencies'', PyMapping OrderedDict [(PyStr ''paramspecs'', PyList [])])]"

definition example_json :: string where
  \<open>example_json = ''{"version": 0, "interdependencies": {"paramspecs": []}}''\<close>

definition example_yaml :: string where
  "example_yaml =
     ''version: 0'' @ [CHR 0x0A] @ ''interdependencies:'' @ [CHR 0x0A] @ ''  paramspecs: []'' @ [CHR 0x0A]"

definition example_to_dict :: "(pyval, pyval) SomeRunDescriber \<Rightarrow> error + pyval" where
  "example_to_dict desc =
     (case desc of
        V0_RunDescriber p \<Rightarrow>
          Inr (PyMapping Dict [(PyStr ''version'', PyInt 0), (PyStr ''interdependencies'', p)])
      | Current_RunDescriber p \<Rightarrow>
          Inr (PyMapping Dict [(PyStr ''version'', PyInt 1), (PyStr ''interdependencies'', p)]))"

definition example_collaborators :: "(pyval, pyval) collaborators" where
  "example_collaborators =
     \<lparr> v0_from_dict = (\<lambda>d. and_then (py_getitem d ''interdependencies'') (\<lambda>p. Inr (plain p))),
       current_from_dict = (\<lambda>d. and_then (py_getitem d ''interdependencies'') (\<lambda>p. Inr (plain p))),
       to_dict = example_to_dict,
       v0_to_v1 = (\<lambda>desc. case desc of
                     V0_RunDescriber p \<Rightarrow> Inr (Current_RunDescriber p)
                   | Current_RunDescriber p \<Rightarrow> Inl (Raised ''AttributeError'')),
       v1_to_v0 = (\<lambda>desc. case desc of
                     V0_RunDescriber p \<Rightarrow> Inl (Raised ''AttributeError'')
                   | Current_RunDescriber p \<Rightarrow> Inr (V0_RunDescriber p)),
       json_dumps = (\<lambda>m. if m = example_v0_dict then Inr example_json else Inl TypeError),
       json_loads = (\<lambda>s. if s = example_json then Inr example_v0_dict
                          else Inl (Raised ''JSONDecodeError'')),
       yaml_dump = (\<lambda>m. if m = example_v0_dict then Inr example_yaml
                         else Inl (Raised ''RepresenterError'')),
       yaml_load = (\<lambda>s. if s = example_yaml then Inr example_yaml_loaded
                         else Inl (Raised ''ParserError'')),
       dict_of_iterable = (\<lambda>x. Inl TypeError) \<rparr>"

text \<open>
  An instance for the variants modelled from the spec: the converters move the fields
  to the other variant, the text codecs are not used.
\<close>

definition spec_example :: "(fields, fields) collaborators" where
  "spec_example = with_spec_variants
     \<lparr> v0_from_dict = (\<lambda>d. Inl (Raised ''NotImplementedError'')),
       current_from_dict = (\<lambda>d. Inl (Raised ''NotImplementedError'')),
       to_dict = (\<lambda>d. Inl (Raised ''NotImplementedError'')),
       v0_to_v1 = (\<lambda>desc. Inr (Current_RunDescriber (fields_of desc))),
       v1_to_v0 = (\<lambda>desc. Inr (V0_RunDescriber (fields_of desc))),
       json_dumps = (\<lambda>m. Inl (Raised ''NotImplementedError'')),
       json_loads = (\<lambda>s. Inl (Raised ''NotImplementedError'')),
       yaml_dump = (\<lambda>m. Inl (Raised ''NotImplementedError'')),
       yaml_load = (\<lambda>s. Inl (Raised ''NotImplementedError'')),
       dict_of_iterable = (\<lambda>x. Inl TypeError) \<rparr>"

text \<open>
  An instance whose documents write their parameter specifications as a tuple, as
  \<^verbatim>\<open>_to_dict\<close> does. The constructors keep the content of the interdependencies;
  the text codecs know the one stored mapping below: the JSON parser returns its tuple
  as a list, the YAML parser returns its tuple as a list and its mappings as ordered
  dictionaries.
\<close>

definition tuple_interdeps :: pyval where
  "tuple_interdeps = PyMapping Dict [(PyStr ''paramspecs'', PyTuple [PyStr ''x'', PyStr ''y''])]"

definition tuple_v0_dict :: pyval where
  "tuple_v0_dict =
     PyMapping Dict [(PyStr ''version'', PyInt 0), (PyStr ''interdependencies'', tuple_interdeps)]"

definition tuple_json :: string where
  \<open>tuple_json = ''{"version": 0, "interdependencies": {"paramspecs": ["x", "y"]}}''\<close>

definition tuple_yaml :: string where
  "tuple_yaml =
     ''version: 0'' @ [CHR 0x0A] @ ''interdependencies:'' @ [CHR 0x0A] @ ''  paramspecs:''
     @ [CHR 0x0A] @ ''  - x'' @ [CHR 0x0A] @ ''  - y'' @ [CHR 0x0A]"

definition tuple_example :: "(pyval, pyval) collaborators" where
  "tuple_example =
     example_collaborators
     \<lparr> v0_from_dict :=
         (\<lambda>d. and_then (py_getitem d ''interdependencies'') (\<lambda>p. Inr (canonical p))),
       current_from_dict :=
         (\<lambda>d. and_then (py_getitem d ''interdependencies'') (\<lambda>p. Inr (canonical p))),
       json_dumps := (\<lambda>m. if m = tuple_v0_dict then Inr tuple_json else Inl TypeError),
       json_loads := (\<lambda>s. if s = tuple_json then Inr (canonical tuple_v0_dict)
                           else Inl (Raised ''JSONDecodeError'')),
       yaml_dump := (\<lambda>m. if m = tuple_v0_dict then Inr tuple_yaml
                          else Inl (Raised ''RepresenterError'')),
       yaml_load := (\<lambda>s. if s = tuple_yaml then Inr (yaml_roundtrip tuple_v0_dict)
                          else Inl (Raised ''ParserError'')) \<rparr>"

section \<open>Properties\<close>

lemma and_then_Inl [simp]: "and_then (Inl e) f = Inl e"
  by (simp add: and_then_def)

lemma and_then_Inr [simp]: "and_then (Inr x) f = f x"
  by (simp add: and_then_def)

subsection \<open>The converter table and the version test\<close>

lemma converters_Some_iff:
  "(\<exists>f. converters E (a, b) = Some f) \<longleftrightarrow> (a = 0 \<or> a = 1) \<and> (b = 0 \<or> b = 1)"
  by (auto simp: converters_def)

lemma converters_getitem_unregistered:
  "\<not> ((a = 0 \<or> a = 1) \<and> (b = 0 \<or> b = 1)) \<Longrightarrow>
   converters_getitem E (a, b) = Inl (KeyError (PyTuple [PyInt a, PyInt b]))"
  by (auto simp: converters_getitem_def converters_def)

lemma version_registered: "version desc = 0 \<or> version desc = 1"
  by (cases desc) simp_all

lemma py_eq_int_one_not_zero: "py_eq_int v 1 \<Longrightarrow> \<not> py_eq_int v 0"
  by (cases v) (auto split: if_splits)

subsection \<open>Values with the same content\<close>

lemma canonical_eq_PyStr: "canonical k = PyStr s \<longleftrightarrow> k = PyStr s"
  by (cases k) auto

lemma map_of_canonical:
  "map_of (map (map_prod canonical canonical) items) (PyStr s) = map_option canonical (map_of items (PyStr s))"
proof (induction items)
  case Nil
  show ?case by simp
next
  case (Cons kv items)
  obtain k v where kv: "kv = (k, v)" by (cases kv)
  show ?case
  proof (cases "k = PyStr s")
    case True
    with kv show ?thesis by simp
  next
    case False
    then have "canonical k \<noteq> PyStr s" by (simp add: canonical_eq_PyStr)
    with False kv Cons.IH show ?thesis by simp
  qed
qed

lemma py_getitem_canonical: "py_getitem (canonical x) k = map_sum id canonical (py_getitem x k)"
  by (cases x) (auto simp: map_of_canonical split: option.splits)

lemma py_eq_int_canonical: "py_eq_int (canonical v) n = py_eq_int v n"
  by (cases v) auto

lemma canonical_yaml_roundtrip: "canonical (yaml_roundtrip x) = canonical x"
  by (induction x) (auto simp: prod.map_comp intro!: prod.map_cong0)

lemma canonical_idem: "canonical (canonical x) = canonical x"
  by (induction x) (auto simp: prod.map_comp intro!: prod.map_cong0)

lemma filter_no_version:
  "PyStr ''version'' \<notin> fst ` set fs \<Longrightarrow> filter (\<lambda>(k, v). k \<noteq> PyStr ''version'') fs = fs"
  by (induction fs) auto

lemma py_getitem_same_content:
  assumes "canonical x = canonical y"
  shows "map_sum id canonical (py_getitem x k) = map_sum id canonical (py_getitem y k)"
  using assms py_getitem_canonical [of x k] py_getitem_canonical [of y k] by simp

lemma from_dict_to_native_same_content:
  assumes v0: "\<And>x y. canonical x = canonical y \<Longrightarrow> v0_from_dict E x = v0_from_dict E y"
    and cur: "\<And>x y. canonical x = canonical y \<Longrightarrow> current_from_dict E x = current_from_dict E y"
    and xy: "canonical x = canonical y"
  shows "from_dict_to_native E x = Inr d \<longleftrightarrow> from_dict_to_native E y = Inr d"
proof (cases "py_getitem x ''version''")
  case (Inl e)
  with py_getitem_same_content [OF xy, of "''version''"]
  have "py_getitem y ''version'' = Inl e"
    by (cases "py_getitem y ''version''") simp_all
  with Inl show ?thesis by (simp add: from_dict_to_native_def)
next
  case (Inr vx)
  with py_getitem_same_content [OF xy, of "''version''"]
  obtain vy where vy: "py_getitem y ''version'' = Inr vy" and "canonical vx = canonical vy"
    by (cases "py_getitem y ''version''") simp_all
  then have eq: "\<And>n. py_eq_int vx n = py_eq_int vy n"
    using py_eq_int_canonical [of vx] py_eq_int_canonical [of vy] by simp
  show ?thesis
    using Inr vy v0 [OF xy] cur [OF xy]
    by (simp add: from_dict_to_native_def eq)
qed

lemma from_dict_to_current_same_content:
  assumes v0: "\<And>x y. canonical x = canonical y \<Longrightarrow> v0_from_dict E x = v0_from_dict E y"
    and cur: "\<And>x y. canonical x = canonical y \<Longrightarrow> current_from_dict E x = current_from_dict E y"
    and xy: "canonical x = canonical y"
  shows "from_dict_to_current E x = Inr d \<longleftrightarrow> from_dict_to_current E y = Inr d"
proof -
  have n: "\<And>n. from_dict_to_native E x = Inr n \<longleftrightarrow> from_dict_to_native E y = Inr n"
    by (rule from_dict_to_native_same_content [OF v0 cur xy])
  show ?thesis
  proof (cases "from_dict_to_native E x")
    case (Inl e)
    have "\<And>n. from_dict_to_native E y \<noteq> Inr n"
      using n Inl by (metis sum.distinct(1))
    then obtain e' where "from_dict_to_native E y = Inl e'"
      by (cases "from_dict_to_native E y") auto
    with Inl show ?thesis by (simp add: from_dict_to_current_def)
  next
    case (Inr desc)
    with n [of desc] have "from_dict_to_native E y = Inr desc" by blast
    with Inr show ?thesis by (simp add: from_dict_to_current_def)
  qed
qed

subsection \<open>Unknown versions\<close>

text \<open>
  C1: a mapping whose \<^verbatim>\<open>version\<close> entry is equal to neither 0 nor 1 makes
  \<^verbatim>\<open>from_dict_to_native\<close> raise the error for an unknown version (the
  \<^verbatim>\<open>RuntimeError\<close> of the last branch, which shows the mapping), and the callers
  \<^verbatim>\<open>from_dict_to_current\<close>, \<^verbatim>\<open>from_json_to_native\<close> and
  \<^verbatim>\<open>from_json_to_current\<close> pass the same error on. In particular a mapping
  with version 999 raises it, whatever its other entries are. Equality with 0 and 1 is
  Python's: \<^verbatim>\<open>False\<close>, \<^verbatim>\<open>True\<close>, \<^verbatim>\<open>0.0\<close> and \<^verbatim>\<open>1.0\<close> count as 0 and 1.
\<close>

theorem unknown_version_raises:
  "(py_getitem dct ''version'' = Inr ver \<and> \<not> py_eq_int ver 0 \<and> \<not> py_eq_int ver 1 \<longrightarrow>
      from_dict_to_native E dct = Inl (RuntimeError dct)
      \<and> from_dict_to_current E dct = Inl (RuntimeError dct)
      \<and> (json_loads E json_str = Inr dct \<longrightarrow>
            from_json_to_native E json_str = Inl (RuntimeError dct)
            \<and> from_json_to_current E json_str = Inl (RuntimeError dct)))
   \<and> from_dict_to_native E (PyMapping c ((PyStr ''version'', PyInt 999) # rest))
       = Inl (RuntimeError (PyMapping c ((PyStr ''version'', PyInt 999) # rest)))"
  by (simp add: from_dict_to_native_def from_dict_to_current_def from_json_to_native_def
      from_json_to_current_def)

theorem unknown_version_raises_witness:
  "from_dict_to_native example_collaborators
     (PyMapping Dict [(PyStr ''interdependencies'', PyNone), (PyStr ''version'', PyInt 2)])
   = Inl (RuntimeError
      (PyMapping Dict [(PyStr ''interdependencies'', PyNone), (PyStr ''version'', PyInt 2)]))
   \<and> from_dict_to_current example_collaborators
     (PyMapping Dict [(PyStr ''interdependencies'', PyNone), (PyStr ''version'', PyInt 2)])
   = Inl (RuntimeError
      (PyMapping Dict [(PyStr ''interdependencies'', PyNone), (PyStr ''version'', PyInt 2)]))"
  using unknown_version_raises [of
      "PyMapping Dict [(PyStr ''interdependencies'', PyNone), (PyStr ''version'', PyInt 2)]"
      "PyInt 2" example_collaborators]
  by simp

subsection \<open>Lookup in the converter table\<close>

text \<open>
  C2: in \<^verbatim>\<open>to_dict_as_version\<close> the lookup in the converter table succeeds when the
  target version is 0 or 1 (the version of the document always is), and the result is
  then the dictionary of the converted document; for any other target version the
  lookup fails with the \<^verbatim>\<open>KeyError\<close> of the missing pair and no dictionary is
  returned.
\<close>

theorem converter_lookup_total_on_known_versions:
  "((v = 0 \<or> v = 1) \<longrightarrow>
      (\<exists>f. converters E (version desc, v) = Some f
         \<and> to_dict_as_version E desc v = and_then (f desc) (to_dict E)))
   \<and> (v \<noteq> 0 \<and> v \<noteq> 1 \<longrightarrow>
      to_dict_as_version E desc v = Inl (KeyError (PyTuple [PyInt (version desc), PyInt v])))"
proof (intro conjI impI)
  assume "v = 0 \<or> v = 1"
  with version_registered [of desc]
  obtain f where f: "converters E (version desc, v) = Some f"
    using converters_Some_iff [of E "version desc" v] by blast
  then have "to_dict_as_version E desc v = and_then (f desc) (to_dict E)"
    by (simp add: to_dict_as_version_def converters_getitem_def)
  with f show "\<exists>f. converters E (version desc, v) = Some f
         \<and> to_dict_as_version E desc v = and_then (f desc) (to_dict E)"
    by blast
next
  assume "v \<noteq> 0 \<and> v \<noteq> 1"
  then show "to_dict_as_version E desc v = Inl (KeyError (PyTuple [PyInt (version desc), PyInt v]))"
    by (simp add: to_dict_as_version_def converters_getitem_unregistered)
qed

theorem converter_lookup_total_on_known_versions_witness:
  "to_dict_as_version example_collaborators (Current_RunDescriber example_interdeps) 0
     = Inr example_v0_dict
   \<and> to_dict_as_version example_collaborators (Current_RunDescriber example_interdeps) 5
     = Inl (KeyError (PyTuple [PyInt 1, PyInt 5]))"
  using converter_lookup_total_on_known_versions
          [of 0 example_collaborators "Current_RunDescriber example_interdeps"]
        converter_lookup_total_on_known_versions
          [of 5 example_collaborators "Current_RunDescriber example_interdeps"]
  by (auto simp: converters_def example_collaborators_def example_to_dict_def example_v0_dict_def)

subsection \<open>Round trip at the same version\<close>

text \<open>
  C3: for the document variants modelled from the spec and any converters and codecs:
  for a valid document of version \<open>v\<close> (0 or 1), converting it to its mapping,
  rebuilding the native document from the mapping with \<^verbatim>\<open>from_dict_to_native\<close> and
  serializing that with \<^verbatim>\<open>to_dict_as_version\<close> as version \<open>v\<close> returns the mapping
  of the document.
\<close>

theorem roundtrip_same_version:
  assumes "valid_document doc"
  shows "\<exists>m. to_dict (with_spec_variants E) doc = Inr m
           \<and> and_then (from_dict_to_native (with_spec_variants E) m)
                (\<lambda>native. to_dict_as_version (with_spec_variants E) native (version doc))
              = Inr m"
proof -
  let ?E = "with_spec_variants E"
  let ?m = "PyMapping Dict ((PyStr ''version'', PyInt (version doc)) # fields_of doc)"
  have m: "to_dict ?E doc = Inr ?m"
    by (simp add: with_spec_variants_def variant_to_dict_def)
  from assms have "PyStr ''version'' \<notin> fst ` set (fields_of doc)"
    by (simp add: valid_document_def)
  then have rebuilt: "variant_from_dict ?m = Inr (fields_of doc)"
    by (simp add: filter_no_version)
  have "and_then (from_dict_to_native ?E ?m)
          (\<lambda>native. to_dict_as_version ?E native (version doc)) = Inr ?m"
  proof (cases doc)
    case (V0_RunDescriber fs)
    with rebuilt have "from_dict_to_native ?E ?m = Inr (V0_RunDescriber fs)"
      by (simp add: from_dict_to_native_def with_spec_variants_def)
    with V0_RunDescriber show ?thesis
      by (simp add: to_dict_as_version_def converters_getitem_def converters_def
          with_spec_variants_def variant_to_dict_def)
  next
    case (Current_RunDescriber fs)
    with rebuilt have "from_dict_to_native ?E ?m = Inr (Current_RunDescriber fs)"
      by (simp add: from_dict_to_native_def with_spec_variants_def)
    with Current_RunDescriber show ?thesis
      by (simp add: to_dict_as_version_def converters_getitem_def converters_def
          with_spec_variants_def variant_to_dict_def)
  qed
  with m show ?thesis by blast
qed

theorem roundtrip_same_version_witness:
  "valid_document (Current_RunDescriber [(PyStr ''interdependencies'', tuple_interdeps)])
   \<and> to_dict spec_example (Current_RunDescriber [(PyStr ''interdependencies'', tuple_interdeps)])
       = Inr (PyMapping Dict
           [(PyStr ''version'', PyInt 1), (PyStr ''interdependencies'', tuple_interdeps)])
   \<and> and_then (from_dict_to_native spec_example
         (PyMapping Dict
           [(PyStr ''version'', PyInt 1), (PyStr ''interdependencies'', tuple_interdeps)]))
        (\<lambda>native. to_dict_as_version spec_example native 1)
       = Inr (PyMapping Dict
           [(PyStr ''version'', PyInt 1), (PyStr ''interdependencies'', tuple_interdeps)])"
proof -
  let ?doc = "Current_RunDescriber [(PyStr ''interdependencies'', tuple_interdeps)]
                :: (fields, fields) SomeRunDescriber"
  have v: "valid_document ?doc"
    by (simp add: valid_document_def)
  have e: "with_spec_variants spec_example = spec_example"
    by (simp add: spec_example_def with_spec_variants_def)
  have d: "to_dict spec_example ?doc
       = Inr (PyMapping Dict
           [(PyStr ''version'', PyInt 1), (PyStr ''interdependencies'', tuple_interdeps)])"
    by (simp add: spec_example_def with_spec_variants_def variant_to_dict_def)
  from roundtrip_same_version [OF v, of spec_example] v d show ?thesis
    by (simp add: e)
qed

subsection \<open>Deserialization to the current version\<close>

text \<open>
  C4: \<^verbatim>\<open>from_dict_to_current\<close> is \<^verbatim>\<open>from_dict_to_native\<close> followed by the
  converter registered for the pair of the native version and \<^verbatim>\<open>CURRENT_VERSION\<close>:
  an error of the first step is passed on, the lookup never fails, and the result is
  what the converter returns. When the upgrade converter returns documents of the
  current version, so does \<^verbatim>\<open>from_dict_to_current\<close>: the result has version 1.
\<close>

theorem from_dict_to_current_composes:
  assumes "\<And>a r. v0_to_v1 E (V0_RunDescriber a) = Inr r \<Longrightarrow> version r = CURRENT_VERSION"
  shows "(\<forall>e. from_dict_to_native E dct = Inl e \<longrightarrow> from_dict_to_current E dct = Inl e)
    \<and> (\<forall>desc. from_dict_to_native E dct = Inr desc \<longrightarrow>
          (\<exists>f. converters E (version desc, CURRENT_VERSION) = Some f
             \<and> from_dict_to_current E dct = f desc))
    \<and> (\<forall>r. from_dict_to_current E dct = Inr r \<longrightarrow> version r = 1)"
proof (intro conjI allI impI)
  fix e assume "from_dict_to_native E dct = Inl e"
  then show "from_dict_to_current E dct = Inl e"
    by (simp add: from_dict_to_current_def)
next
  fix desc assume "from_dict_to_native E dct = Inr desc"
  then show "\<exists>f. converters E (version desc, CURRENT_VERSION) = Some f
             \<and> from_dict_to_current E dct = f desc"
    by (cases desc)
       (simp_all add: from_dict_to_current_def converters_getitem_def converters_def
          CURRENT_VERSION_def)
next
  fix r assume r: "from_dict_to_current E dct = Inr r"
  then obtain desc where desc: "from_dict_to_native E dct = Inr desc"
    by (cases "from_dict_to_native E dct") (simp_all add: from_dict_to_current_def)
  show "version r = 1"
  proof (cases desc)
    case (V0_RunDescriber a)
    with r desc have "v0_to_v1 E (V0_RunDescriber a) = Inr r"
      by (simp add: from_dict_to_current_def converters_getitem_def converters_def
          CURRENT_VERSION_def)
    then show ?thesis using assms by (simp add: CURRENT_VERSION_def)
  next
    case (Current_RunDescriber b)
    with r desc show ?thesis
      by (auto simp: from_dict_to_current_def converters_getitem_def converters_def
          CURRENT_VERSION_def)
  qed
qed

theorem from_dict_to_current_composes_witness:
  "from_dict_to_native example_collaborators example_v0_dict
     = Inr (V0_RunDescriber example_interdeps)
   \<and> from_dict_to_current example_collaborators example_v0_dict
     = Inr (Current_RunDescriber example_interdeps)
   \<and> version (Current_RunDescriber example_interdeps :: (pyval, pyval) SomeRunDescriber) = 1"
proof -
  have c: "\<And>a r. v0_to_v1 example_collaborators (V0_RunDescriber a) = Inr r
             \<Longrightarrow> version r = CURRENT_VERSION"
    by (auto simp: example_collaborators_def CURRENT_VERSION_def)
  have n: "from_dict_to_native example_collaborators example_v0_dict
             = Inr (V0_RunDescriber example_interdeps)"
    by (simp add: from_dict_to_native_def example_collaborators_def example_v0_dict_def
        example_interdeps_def)
  from from_dict_to_current_composes [of example_collaborators example_v0_dict, OF c] n
  show ?thesis
    by (auto simp: converters_def CURRENT_VERSION_def example_collaborators_def)
qed

subsection \<open>Identity converters\<close>

text \<open>
  C5: for each known version \<open>v\<close> (0 and 1) the table has the entry \<open>(v, v)\<close>, and
  the converter registered there returns the document it is given, unchanged; looking
  it up for a document of version \<open>v\<close> and applying it yields that document.
\<close>

theorem identity_converters_return_input:
  "(v = 0 \<or> v = 1) \<longrightarrow>
     (\<exists>f. converters E (v, v) = Some f \<and> (\<forall>d. f d = Inr d))
     \<and> (\<forall>d. version d = v \<longrightarrow>
            and_then (converters_getitem E (version d, v)) (\<lambda>f. f d) = Inr d)"
  by (auto simp: converters_def converters_getitem_def)

theorem identity_converters_return_input_witness:
  "and_then (converters_getitem example_collaborators (0, 0))
     (\<lambda>f. f (V0_RunDescriber example_interdeps)) = Inr (V0_RunDescriber example_interdeps)
   \<and> and_then (converters_getitem example_collaborators (1, 1))
     (\<lambda>f. f (Current_RunDescriber example_interdeps)) = Inr (Current_RunDescriber example_interdeps)"
  using identity_converters_return_input [of 0 example_collaborators]
        identity_converters_return_input [of 1 example_collaborators]
  by (metis version.simps(1) version.simps(2))

subsection \<open>Serialization for storage\<close>

text \<open>
  C6: serialization for storage is serialization as the storage version, which is the
  constant 0 and trails the current version 1.
\<close>

theorem to_dict_for_storage_is_as_storage_version:
  "to_dict_for_storage E desc = to_dict_as_version E desc STORAGE_VERSION
   \<and> STORAGE_VERSION = 0 \<and> CURRENT_VERSION = 1 \<and> STORAGE_VERSION < CURRENT_VERSION"
  by (simp add: to_dict_for_storage_def STORAGE_VERSION_def CURRENT_VERSION_def)

subsection \<open>JSON and YAML agree\<close>

text \<open>
  C7: let the mapping stored for a document be a dictionary \<open>m\<close> that both text codecs
  accept, each reading its own text back as the library does: \<^verbatim>\<open>json.loads\<close> returns
  \<open>m\<close> with its tuples as lists and its mappings as plain dictionaries,
  \<^verbatim>\<open>yaml.load\<close> returns \<open>m\<close> with its tuples as lists and its mappings as ordered
  dictionaries; and let the constructors of the two variants depend on the content of
  a mapping only. Then deserializing the JSON output with the JSON codec and the YAML
  output with the YAML codec give equal documents of the current version: one returns
  a document exactly when the other returns the same document.
\<close>

theorem json_and_yaml_give_equal_documents:
  assumes storage: "to_dict_for_storage E desc = Inr (PyMapping c items)"
    and json: "json_dumps E (PyMapping c items) = Inr json_str"
      "json_loads E json_str = Inr (canonical (PyMapping c items))"
    and yaml: "yaml_dump E (PyMapping c items) = Inr yaml_str"
      "yaml_load E yaml_str = Inr (yaml_roundtrip (PyMapping c items))"
    and v0: "\<And>x y. canonical x = canonical y \<Longrightarrow> v0_from_dict E x = v0_from_dict E y"
    and cur: "\<And>x y. canonical x = canonical y
                \<Longrightarrow> current_from_dict E x = current_from_dict E y"
  shows "and_then (to_json_for_storage E desc) (from_json_to_current E) = Inr d
     \<longleftrightarrow> and_then (to_yaml_for_storage E desc) (from_yaml_to_current E) = Inr d"
proof -
  let ?from_json = "canonical (PyMapping c items)"
  let ?ser = "PyMapping Dict (map (map_prod yaml_roundtrip yaml_roundtrip) items)"
  have j: "and_then (to_json_for_storage E desc) (from_json_to_current E)
             = from_dict_to_current E ?from_json"
    using storage json by (simp add: to_json_for_storage_def from_json_to_current_def)
  have y: "and_then (to_yaml_for_storage E desc) (from_yaml_to_current E)
             = from_dict_to_current E ?ser"
    using storage yaml by (simp add: to_yaml_for_storage_def from_yaml_to_current_def)
  have "canonical ?ser = canonical (yaml_roundtrip (PyMapping c items))"
    by simp
  then have "canonical ?from_json = canonical ?ser"
    by (simp only: canonical_yaml_roundtrip canonical_idem)
  from from_dict_to_current_same_content [OF v0 cur this] j y show ?thesis by simp
qed

theorem json_and_yaml_give_equal_documents_witness:
  "and_then (to_json_for_storage tuple_example (V0_RunDescriber tuple_interdeps))
     (from_json_to_current tuple_example)
     = Inr (Current_RunDescriber (canonical tuple_interdeps))
   \<and> and_then (to_yaml_for_storage tuple_example (V0_RunDescriber tuple_interdeps))
     (from_yaml_to_current tuple_example)
     = Inr (Current_RunDescriber (canonical tuple_interdeps))
   \<and> canonical tuple_v0_dict \<noteq> tuple_v0_dict
   \<and> yaml_roundtrip tuple_v0_dict \<noteq> canonical tuple_v0_dict"
proof -
  let ?E = tuple_example
  let ?items = "[(PyStr ''version'', PyInt 0), (PyStr ''interdependencies'', tuple_interdeps)]"
  have m: "tuple_v0_dict = PyMapping Dict ?items"
    by (simp add: tuple_v0_dict_def)
  have storage: "to_dict_for_storage ?E (V0_RunDescriber tuple_interdeps)
      = Inr (PyMapping Dict ?items)"
    by (simp add: to_dict_for_storage_def to_dict_as_version_def converters_getitem_def
        converters_def STORAGE_VERSION_def tuple_example_def example_collaborators_def
        example_to_dict_def)
  have jd: "json_dumps ?E (PyMapping Dict ?items) = Inr tuple_json"
    by (simp add: tuple_example_def m)
  have jl: "json_loads ?E tuple_json = Inr (canonical (PyMapping Dict ?items))"
    by (simp add: tuple_example_def m)
  have yd: "yaml_dump ?E (PyMapping Dict ?items) = Inr tuple_yaml"
    by (simp add: tuple_example_def m)
  have yl: "yaml_load ?E tuple_yaml = Inr (yaml_roundtrip (PyMapping Dict ?items))"
    by (simp add: tuple_example_def m)
  have v0: "\<And>x y. canonical x = canonical y \<Longrightarrow> v0_from_dict ?E x = v0_from_dict ?E y"
  proof -
    fix x y :: pyval assume "canonical x = canonical y"
    from py_getitem_same_content [OF this, of "''interdependencies''"]
    show "v0_from_dict ?E x = v0_from_dict ?E y"
      by (cases "py_getitem x ''interdependencies''"; cases "py_getitem y ''interdependencies''")
         (simp_all add: tuple_example_def)
  qed
  have cur: "\<And>x y. canonical x = canonical y
               \<Longrightarrow> current_from_dict ?E x = current_from_dict ?E y"
  proof -
    fix x y :: pyval assume "canonical x = canonical y"
    from py_getitem_same_content [OF this, of "''interdependencies''"]
    show "current_from_dict ?E x = current_from_dict ?E y"
      by (cases "py_getitem x ''interdependencies''"; cases "py_getitem y ''interdependencies''")
         (simp_all add: tuple_example_def)
  qed
  have j: "and_then (to_json_for_storage ?E (V0_RunDescriber tuple_interdeps))
     (from_json_to_current ?E) = Inr (Current_RunDescriber (canonical tuple_interdeps))"
    using storage jd jl
    by (simp add: to_json_for_storage_def from_json_to_current_def from_dict_to_current_def
        from_dict_to_native_def converters_getitem_def converters_def CURRENT_VERSION_def)
       (simp add: tuple_example_def example_collaborators_def tuple_interdeps_def)
  have ne: "canonical tuple_v0_dict \<noteq> tuple_v0_dict
            \<and> yaml_roundtrip tuple_v0_dict \<noteq> canonical tuple_v0_dict"
    by (simp add: tuple_v0_dict_def tuple_interdeps_def)
  from json_and_yaml_give_equal_documents
         [of ?E "V0_RunDescriber tuple_interdeps" Dict ?items tuple_json tuple_yaml
             "Current_RunDescriber (canonical tuple_interdeps)",
          OF storage jd jl yd yl v0 cur] j ne
  show ?thesis by simp
qed

subsection \<open>The YAML codec hands a plain dictionary to the dictionary codec\<close>

text \<open>
  C8: for every YAML string, \<^verbatim>\<open>from_yaml_to_current\<close> passes the object
  returned by the parser through \<^verbatim>\<open>dict\<close> before the dictionary codec sees it. A
  parse error is passed on; a mapping of any class is replaced by the plain dictionary
  with the same items; and whenever \<^verbatim>\<open>from_dict_to_current\<close> is reached, its
  argument is itself a plain \<^verbatim>\<open>dict\<close>. The conversion is that of the returned object
  only: the values inside it, mappings of the parser's class included, are handed on
  as they are.
\<close>

theorem from_yaml_to_current_hands_plain_dict:
  "(\<forall>e. yaml_load E yaml_str = Inl e \<longrightarrow> from_yaml_to_current E yaml_str = Inl e)
   \<and> (\<forall>c items. yaml_load E yaml_str = Inr (PyMapping c items) \<longrightarrow>
         from_yaml_to_current E yaml_str = from_dict_to_current E (PyMapping Dict items))
   \<and> (\<forall>loaded. yaml_load E yaml_str = Inr loaded \<longrightarrow>
         (case py_dict E loaded of
            Inl e \<Rightarrow> from_yaml_to_current E yaml_str = Inl e
          | Inr ser \<Rightarrow> is_plain_dict ser
                       \<and> from_yaml_to_current E yaml_str = from_dict_to_current E ser))"
proof (intro conjI allI impI)
  fix e assume "yaml_load E yaml_str = Inl e"
  then show "from_yaml_to_current E yaml_str = Inl e"
    by (simp add: from_yaml_to_current_def)
next
  fix c items assume "yaml_load E yaml_str = Inr (PyMapping c items)"
  then show "from_yaml_to_current E yaml_str = from_dict_to_current E (PyMapping Dict items)"
    by (simp add: from_yaml_to_current_def)
next
  fix loaded assume l: "yaml_load E yaml_str = Inr loaded"
  have p: "\<And>ser. py_dict E loaded = Inr ser \<Longrightarrow> is_plain_dict ser"
    by (cases loaded) (auto simp: and_then_def split: sum.splits)
  show "case py_dict E loaded of
            Inl e \<Rightarrow> from_yaml_to_current E yaml_str = Inl e
          | Inr ser \<Rightarrow> is_plain_dict ser
                       \<and> from_yaml_to_current E yaml_str = from_dict_to_current E ser"
    using l p by (cases "py_dict E loaded") (simp_all add: from_yaml_to_current_def)
qed

theorem from_yaml_to_current_hands_plain_dict_witness:
  "yaml_load example_collaborators example_yaml = Inr example_yaml_loaded
   \<and> \<not> is_plain_dict example_yaml_loaded
   \<and> from_yaml_to_current example_collaborators example_yaml
       = from_dict_to_current example_collaborators
           (PyMapping Dict
             [(PyStr ''version'', PyInt 0),
              (PyStr ''interdependencies'',
               PyMapping OrderedDict [(PyStr ''paramspecs'', PyList [])])])
   \<and> from_yaml_to_current example_collaborators example_yaml
       = Inr (Current_RunDescriber example_interdeps)"
proof -
  have l: "yaml_load example_collaborators example_yaml = Inr example_yaml_loaded"
    by (simp add: example_collaborators_def)
  have r: "from_dict_to_current example_collaborators
           (PyMapping Dict
             [(PyStr ''version'', PyInt 0),
              (PyStr ''interdependencies'',
               PyMapping OrderedDict [(PyStr ''paramspecs'', PyList [])])])
          = Inr (Current_RunDescriber example_interdeps)"
    by (simp add: from_dict_to_current_def from_dict_to_native_def converters_getitem_def
        converters_def CURRENT_VERSION_def example_collaborators_def example_interdeps_def)
  from from_yaml_to_current_hands_plain_dict [of example_collaborators example_yaml] l r
  show ?thesis by (simp add: example_yaml_loaded_def)
qed

text \<open>
  The stronger statement, that the dictionary codec never receives a mapping of the
  parser's class, fails one level down: for a YAML text with a nested mapping the value
  handed to \<^verbatim>\<open>from_dict_to_current\<close> is a plain dictionary whose
  \<^verbatim>\<open>interdependencies\<close> entry is still the ordered dictionary of the parser.
\<close>

theorem from_yaml_to_current_passes_nested_ordered_dict:
  "and_then (yaml_load example_collaborators example_yaml) (py_dict example_collaborators)
     = Inr (PyMapping Dict
         [(PyStr ''version'', PyInt 0),
          (PyStr ''interdependencies'',
           PyMapping OrderedDict [(PyStr ''paramspecs'', PyList [])])])
   \<and> from_yaml_to_current example_collaborators example_yaml
     = from_dict_to_current example_collaborators
        (PyMapping Dict
         [(PyStr ''version'', PyInt 0),
          (PyStr ''interdependencies'',
           PyMapping OrderedDict [(PyStr ''paramspecs'', PyList [])])])
   \<and> \<not> only_plain_dicts
        (PyMapping Dict
         [(PyStr ''version'', PyInt 0),
          (PyStr ''interdependencies'',
           PyMapping OrderedDict [(PyStr ''paramspecs'', PyList [])])])"
  by (simp add: from_yaml_to_current_def example_collaborators_def example_yaml_loaded_def)

subsection \<open>Symmetric coverage of the converter table\<close>

text \<open>
  C9: the converter table is symmetric in its keys: whenever \<open>(a, b)\<close> is
  registered, so is \<open>(b, a)\<close>; the upgrade \<open>(0, 1)\<close> and the downgrade \<open>(1, 0)\<close>
  are both registered. Hence for every document the lookup for the storage version
  succeeds, and \<^verbatim>\<open>to_dict_for_storage\<close> is the dictionary of the converted
  document.
\<close>

theorem converters_symmetric_coverage:
  "(converters E (a, b) \<noteq> None \<longrightarrow> converters E (b, a) \<noteq> None)
   \<and> converters E (0, 1) \<noteq> None \<and> converters E (1, 0) \<noteq> None
   \<and> (\<exists>f. converters_getitem E (version desc, STORAGE_VERSION) = Inr f
          \<and> to_dict_for_storage E desc = and_then (f desc) (to_dict E))"
proof (intro conjI impI)
  assume "converters E (a, b) \<noteq> None"
  then have "(a = 0 \<or> a = 1) \<and> (b = 0 \<or> b = 1)"
    using converters_Some_iff [of E a b] by auto
  then show "converters E (b, a) \<noteq> None"
    using converters_Some_iff [of E b a] by auto
next
  show "converters E (0, 1) \<noteq> None" by (simp add: converters_def)
  show "converters E (1, 0) \<noteq> None" by (simp add: converters_def)
  show "\<exists>f. converters_getitem E (version desc, STORAGE_VERSION) = Inr f
          \<and> to_dict_for_storage E desc = and_then (f desc) (to_dict E)"
    by (cases desc)
       (simp_all add: converters_getitem_def converters_def STORAGE_VERSION_def
          to_dict_for_storage_def to_dict_as_version_def)
qed

theorem converters_symmetric_coverage_witness:
  "converters example_collaborators (0, 1) \<noteq> None
   \<and> converters example_collaborators (1, 0) \<noteq> None
   \<and> to_dict_for_storage example_collaborators (Current_RunDescriber example_interdeps)
       = Inr example_v0_dict"
  using converters_symmetric_coverage
          [of example_collaborators 0 1 "Current_RunDescriber example_interdeps"]
  by (auto simp: converters_getitem_def converters_def STORAGE_VERSION_def
      example_collaborators_def example_to_dict_def example_v0_dict_def)

subsection \<open>Dispatch on the version entry alone\<close>

text \<open>
  C10: \<^verbatim>\<open>from_dict_to_native\<close> looks at the \<^verbatim>\<open>version\<close> entry only. When the
  entry equals 0 the result is exactly that of \<^verbatim>\<open>v0.RunDescriber._from_dict\<close> on
  the mapping, when it equals 1 exactly that of
  \<^verbatim>\<open>current.RunDescriber._from_dict\<close>, errors of the constructor included,
  whatever the other entries are.
\<close>

theorem dispatch_on_version_only:
  assumes "py_getitem dct ''version'' = Inr ver"
  shows "(py_eq_int ver 0 \<longrightarrow>
            from_dict_to_native E dct
              = and_then (v0_from_dict E dct) (\<lambda>a. Inr (V0_RunDescriber a)))
       \<and> (py_eq_int ver 1 \<longrightarrow>
            from_dict_to_native E dct
              = and_then (current_from_dict E dct) (\<lambda>b. Inr (Current_RunDescriber b)))"
  using assms py_eq_int_one_not_zero [of ver]
  by (auto simp: from_dict_to_native_def)

theorem dispatch_on_version_only_witness:
  "from_dict_to_native example_collaborators
     (PyMapping Dict [(PyStr ''version'', PyBool True), (PyStr ''interdependencies'', PyInt 7)])
   = Inr (Current_RunDescriber (PyInt 7))
   \<and> from_dict_to_native example_collaborators
     (PyMapping Dict [(PyStr ''junk'', PyNone), (PyStr ''version'', PyInt 0)])
   = Inl (KeyError (PyStr ''interdependencies''))"
  using dispatch_on_version_only
      [of "PyMapping Dict [(PyStr ''version'', PyBool True), (PyStr ''interdependencies'', PyInt 7)]"
          "PyBool True" example_collaborators]
    dispatch_on_version_only
      [of "PyMapping Dict [(PyStr ''junk'', PyNone), (PyStr ''version'', PyInt 0)]"
          "PyInt 0" example_collaborators]
  by (simp add: example_collaborators_def)

end
